theory Spec2Isabelle
  imports Complex_Main
begin

section \<open>The owl of \<^verbatim>\<open>src/badguy/owl.cpp\<close>\<close>

text \<open>
  The owl is a flying enemy that patrols horizontally, may carry one portable object and
  lets go of it over the player, at the edge of the level, and whenever it is squished,
  killed, frozen or set alight. Every member function of \<^verbatim>\<open>Owl\<close> becomes a function
  from the state of the game to the state of the game. The state holds the owl, the
  collaborators the owl asks (editor, object factory, sector) and the list of the calls the
  owl has made, in the order in which it made them.

  A finite C++ \<^verbatim>\<open>float\<close> is modelled as the real number it denotes. The constants of
  the source (120, 128, 16, 3, 0) are exact in binary32. The sums of
  \<^verbatim>\<open>is_above_player\<close> are rounded to binary32 (\<open>float_add\<close> below), because the
  comparison that follows them depends on the rounding; the arithmetic on the anchor in
  \<^verbatim>\<open>active_update\<close> is kept exact. Infinities and NaN are outside the model.
\<close>

subsection \<open>Data\<close>

text \<open>
  Modelled from the spec: the declaration of \<^verbatim>\<open>Direction\<close> is outside
  \<^verbatim>\<open>owl.cpp\<close>; the spec gives the owl's direction the two values Left and Right, and
  the source only ever compares with \<^verbatim>\<open>Direction::LEFT\<close>.
\<close>

datatype Direction = LEFT | RIGHT

record Vector =
  vec_x :: real
  vec_y :: real

text \<open>A rectangle: \<open>p1\<close> is the top left corner, \<open>p2\<close> the bottom right one (y grows downwards).\<close>

record Rectf =
  p1 :: Vector
  p2 :: Vector

record CollisionHit =
  top :: bool
  bottom :: bool
  left :: bool
  right :: bool

text \<open>The part of \<^verbatim>\<open>Physic\<close> that the owl writes.\<close>

record Physic =
  velocity_x :: real
  velocity_y :: real
  acceleration_y :: real
  gravity_enabled :: bool

text \<open>
  Only \<^verbatim>\<open>STATE_FALLING\<close> is named in the owl's source; the other values stand for
  the states a bad guy is in before it falls.
\<close>

datatype State = STATE_INIT | STATE_ACTIVE | STATE_FALLING

text \<open>The fields of the base class \<^verbatim>\<open>BadGuy\<close> that the owl reads or writes.\<close>

record BadGuy =
  m_dir :: Direction
  m_frozen :: bool
  m_bbox :: Rectf
  m_physic :: Physic
  m_action :: string
  m_state :: State

text \<open>
  A game object is known by its reference; \<open>portable\<close> says whether
  \<^verbatim>\<open>dynamic_cast<Portable*>\<close> succeeds on it.
\<close>

type_synonym obj_ref = nat

record GameObject =
  ref :: obj_ref
  portable :: bool

definition as_Portable :: "GameObject \<Rightarrow> obj_ref option" where
  "as_Portable obj = (if portable obj then Some (ref obj) else None)"

text \<open>
  The owl itself: the base class subobject and the two members the class adds.
  \<open>carried_object\<close> is the raw pointer of the source, \<open>None\<close> for \<^verbatim>\<open>nullptr\<close>.
\<close>

record Owl =
  badguy :: BadGuy
  carried_obj_name :: string
  carried_object :: "obj_ref option"

text \<open>Every call the owl makes on something else is recorded, in order.\<close>

datatype call =
    Set_velocity_x real
  | Set_velocity_y real
  | Set_acceleration_y real
  | Enable_gravity bool
  | Set_action string
  | Set_state State
  | Run_dead_script
  | Play_sound string Vector
  | Player_bounce
  | Grab obj_ref Vector Direction
  | Ungrab obj_ref Direction
  | Log_fatal string
  | Log_warning string
  | Add_object GameObject
  | Writer_write string string
  | Call_BadGuy_save
  | Call_BadGuy_active_update real
  | Call_BadGuy_freeze
  | Call_BadGuy_unfreeze
  | Call_BadGuy_ignite
  | Call_BadGuy_collision_solid CollisionHit

fun is_Grab :: "call \<Rightarrow> bool" where
  "is_Grab (Grab obj pos d) = True"
| "is_Grab c = False"

text \<open>
  The state of the game as the owl sees it. \<open>factory_create\<close> is
  \<^verbatim>\<open>GameObjectFactory::instance().create\<close>, \<open>None\<close> when it returns a null pointer;
  \<open>sector_nearest_player\<close> is \<^verbatim>\<open>Sector::get().get_nearest_player\<close> and gives the
  bounding box of the player it finds.
\<close>

record game =
  self :: Owl
  editor_is_active :: bool
  factory_create :: "string \<Rightarrow> Vector \<Rightarrow> Direction \<Rightarrow> GameObject option"
  sector_objects :: "GameObject list"
  sector_width :: real
  sector_nearest_player :: "Rectf \<Rightarrow> Rectf option"
  calls :: "call list"

text \<open>
  The member functions of \<^verbatim>\<open>BadGuy\<close> that the owl overrides and delegates to. Their
  bodies are outside \<^verbatim>\<open>owl.cpp\<close>, so they are parameters: each may change the base
  class subobject in any way, and none can reach the members that \<^verbatim>\<open>Owl\<close> adds.
\<close>

record BadGuy_methods =
  BadGuy_active_update :: "real \<Rightarrow> BadGuy \<Rightarrow> BadGuy"
  BadGuy_freeze :: "BadGuy \<Rightarrow> BadGuy"
  BadGuy_unfreeze :: "BadGuy \<Rightarrow> BadGuy"
  BadGuy_ignite :: "BadGuy \<Rightarrow> BadGuy"
  BadGuy_collision_solid :: "CollisionHit \<Rightarrow> BadGuy \<Rightarrow> BadGuy"

subsection \<open>Reading and writing the state\<close>

definition dir :: "game \<Rightarrow> Direction" where
  "dir g = m_dir (badguy (self g))"

definition frozen :: "game \<Rightarrow> bool" where
  "frozen g = m_frozen (badguy (self g))"

definition bbox :: "game \<Rightarrow> Rectf" where
  "bbox g = m_bbox (badguy (self g))"

definition physic :: "game \<Rightarrow> Physic" where
  "physic g = m_physic (badguy (self g))"

definition action :: "game \<Rightarrow> string" where
  "action g = m_action (badguy (self g))"

definition carried :: "game \<Rightarrow> obj_ref option" where
  "carried g = carried_object (self g)"

text \<open>\<^verbatim>\<open>get_pos()\<close> of a moving object is the top left corner of its bounding box.\<close>

definition get_pos :: "game \<Rightarrow> Vector" where
  "get_pos g = p1 (bbox g)"

definition emit :: "call \<Rightarrow> game \<Rightarrow> game" where
  "emit c g = g\<lparr>calls := calls g @ [c]\<rparr>"

definition upd_badguy :: "(BadGuy \<Rightarrow> BadGuy) \<Rightarrow> game \<Rightarrow> game" where
  "upd_badguy f g = g\<lparr>self := (self g)\<lparr>badguy := f (badguy (self g))\<rparr>\<rparr>"

definition upd_physic :: "(Physic \<Rightarrow> Physic) \<Rightarrow> game \<Rightarrow> game" where
  "upd_physic f g = upd_badguy (\<lambda>b. b\<lparr>m_physic := f (m_physic b)\<rparr>) g"

definition set_velocity_x :: "real \<Rightarrow> game \<Rightarrow> game" where
  "set_velocity_x v g = emit (Set_velocity_x v) (upd_physic (\<lambda>p. p\<lparr>velocity_x := v\<rparr>) g)"

definition set_velocity_y :: "real \<Rightarrow> game \<Rightarrow> game" where
  "set_velocity_y v g = emit (Set_velocity_y v) (upd_physic (\<lambda>p. p\<lparr>velocity_y := v\<rparr>) g)"

definition set_acceleration_y :: "real \<Rightarrow> game \<Rightarrow> game" where
  "set_acceleration_y a g =
     emit (Set_acceleration_y a) (upd_physic (\<lambda>p. p\<lparr>acceleration_y := a\<rparr>) g)"

definition enable_gravity :: "bool \<Rightarrow> game \<Rightarrow> game" where
  "enable_gravity e g = emit (Enable_gravity e) (upd_physic (\<lambda>p. p\<lparr>gravity_enabled := e\<rparr>) g)"

text \<open>
  Both \<^verbatim>\<open>set_action (name, -1)\<close> and \<^verbatim>\<open>m_sprite->set_action (name)\<close> select the
  action of the owl's sprite.
\<close>

definition set_action :: "string \<Rightarrow> game \<Rightarrow> game" where
  "set_action a g = emit (Set_action a) (upd_badguy (\<lambda>b. b\<lparr>m_action := a\<rparr>) g)"

definition set_dir :: "Direction \<Rightarrow> game \<Rightarrow> game" where
  "set_dir d g = upd_badguy (\<lambda>b. b\<lparr>m_dir := d\<rparr>) g"

definition set_state :: "State \<Rightarrow> game \<Rightarrow> game" where
  "set_state s g = emit (Set_state s) (upd_badguy (\<lambda>b. b\<lparr>m_state := s\<rparr>) g)"

definition set_carried_object :: "obj_ref option \<Rightarrow> game \<Rightarrow> game" where
  "set_carried_object r g = g\<lparr>self := (self g)\<lparr>carried_object := r\<rparr>\<rparr>"

definition add_object :: "GameObject \<Rightarrow> game \<Rightarrow> game" where
  "add_object obj g = emit (Add_object obj) (g\<lparr>sector_objects := sector_objects g @ [obj]\<rparr>)"

text \<open>
  \<^verbatim>\<open>carried_object->grab (*this, obj_pos, m_dir)\<close> and
  \<^verbatim>\<open>carried_object->ungrab (*this, m_dir)\<close>: calls on the carried object, with the
  direction the owl has at that moment. What the carried object does with them is its own
  business; for the owl they are calls made, in this order.
\<close>

definition grab :: "obj_ref \<Rightarrow> Vector \<Rightarrow> game \<Rightarrow> game" where
  "grab obj pos g = emit (Grab obj pos (dir g)) g"

definition ungrab :: "obj_ref \<Rightarrow> game \<Rightarrow> game" where
  "ungrab obj g = emit (Ungrab obj (dir g)) g"

text \<open>A call of a base class member function: it is recorded and changes the base class subobject.\<close>

definition call_base :: "call \<Rightarrow> (BadGuy \<Rightarrow> BadGuy) \<Rightarrow> game \<Rightarrow> game" where
  "call_base c f g = upd_badguy f (emit c g)"

subsection \<open>Sums in binary32\<close>

text \<open>
  The unit in the last place of a binary32 number of magnitude \<open>x\<close>: \<open>2 ^ (e - 23)\<close> when
  \<open>2 ^ e \<le> x < 2 ^ (e + 1)\<close>, and \<open>2 ^ (- 149)\<close> for the lowest normal binade and the
  subnormal numbers. \<open>ulp_from_one\<close> finds it for \<open>x\<close> from 1 upwards by halving.
\<close>

function ulp_from_one :: "real \<Rightarrow> real" where
  "ulp_from_one x = (if x < 2 then 1 / 2 ^ 23 else 2 * ulp_from_one (x / 2))"
  by pat_completeness auto
termination
proof (relation "measure (\<lambda>x. nat \<lceil>x\<rceil>)")
  show "wf (measure (\<lambda>x::real. nat \<lceil>x\<rceil>))" by simp
next
  fix x :: real
  assume "\<not> x < 2"
  then have "x / 2 \<le> x - 1" by simp
  then have "\<lceil>x / 2\<rceil> \<le> \<lceil>x - 1\<rceil>" by (rule ceiling_mono)
  moreover have "\<lceil>x - 1\<rceil> = \<lceil>x\<rceil> - 1" by simp
  moreover have "1 < \<lceil>x\<rceil>" using \<open>\<not> x < 2\<close> by linarith
  ultimately show "(x / 2, x) \<in> measure (\<lambda>x. nat \<lceil>x\<rceil>)" by simp
qed

declare ulp_from_one.simps [simp del]

definition ulp32 :: "real \<Rightarrow> real" where
  "ulp32 x =
     (if x < 1 / 2 ^ 125 then 1 / 2 ^ 149
      else if x < 1 then ulp_from_one (x * 2 ^ 125) / 2 ^ 125
      else ulp_from_one x)"

text \<open>Rounding to the nearest integer, a tie going to the even one.\<close>

definition round_half_even :: "real \<Rightarrow> int" where
  "round_half_even r =
     (let f = \<lfloor>r\<rfloor>
      in if r - of_int f < 1 / 2 then f
         else if 1 / 2 < r - of_int f then f + 1
         else if even f then f else f + 1)"

text \<open>
  The binary32 number nearest to \<open>x\<close>, ties to even: the default rounding of a C++
  \<^verbatim>\<open>float\<close> operation. A result beyond the largest binary32 number would be an
  infinity; adding 128 to a finite binary32 number never gives one.
\<close>

definition round32 :: "real \<Rightarrow> real" where
  "round32 x = of_int (round_half_even (x / ulp32 \<bar>x\<bar>)) * ulp32 \<bar>x\<bar>"

text \<open>\<^verbatim>\<open>a + b\<close> on two \<^verbatim>\<open>float\<close> operands.\<close>

definition float_add :: "real \<Rightarrow> real \<Rightarrow> real" where
  "float_add a b = round32 (a + b)"

subsection \<open>The member functions\<close>

definition FLYING_SPEED :: real where
  "FLYING_SPEED = 120"

definition ACTIVATION_DISTANCE :: real where
  "ACTIVATION_DISTANCE = 128"

text \<open>\<^verbatim>\<open>m_dir == Direction::LEFT ? "left" : "right"\<close>\<close>

definition dir_action :: "Direction \<Rightarrow> string" where
  "dir_action d = (if d = LEFT then ''left'' else ''right'')"

text \<open>\<^verbatim>\<open>m_dir == Direction::LEFT ? -FLYING_SPEED : FLYING_SPEED\<close>\<close>

definition dir_speed :: "Direction \<Rightarrow> real" where
  "dir_speed d = (if d = LEFT then - FLYING_SPEED else FLYING_SPEED)"

definition initialize :: "game \<Rightarrow> game" where
  "initialize g0 =
     (let g1 = set_velocity_x (dir_speed (dir g0)) g0;
          g2 = enable_gravity False g1;
          g3 = set_action (dir_action (dir g2)) g2
      in if editor_is_active g3 then g3
         else (case factory_create g3 (carried_obj_name (self g3)) (get_pos g3) (dir g3) of
                 None \<Rightarrow> emit (Log_fatal (carried_obj_name (self g3))) g3
               | Some game_object \<Rightarrow>
                   (let g4 = set_carried_object (as_Portable game_object) g3
                    in if carried g4 = None
                       then emit (Log_warning (carried_obj_name (self g4))) g4
                       else add_object game_object g4)))"

definition is_above_player :: "game \<Rightarrow> bool" where
  "is_above_player g =
     (case sector_nearest_player g (bbox g) of
        None \<Rightarrow> False
      | Some player_bbox \<Rightarrow>
          (let x_offset = (if dir g = LEFT then ACTIVATION_DISTANCE else - ACTIVATION_DISTANCE)
           in vec_y (p1 player_bbox) \<ge> vec_y (p2 (bbox g))
              \<and> float_add (vec_x (p2 player_bbox)) x_offset > vec_x (p1 (bbox g))
              \<and> float_add (vec_x (p1 player_bbox)) x_offset < vec_x (p2 (bbox g))))"

text \<open>
  Modelled from the spec: \<^verbatim>\<open>get_anchor_pos\<close> is outside \<^verbatim>\<open>owl.cpp\<close>; for
  \<^verbatim>\<open>ANCHOR_BOTTOM\<close> the spec says it is the bottom-center of the rectangle.
\<close>

definition get_anchor_pos_ANCHOR_BOTTOM :: "Rectf \<Rightarrow> Vector" where
  "get_anchor_pos_ANCHOR_BOTTOM r =
     \<lparr>vec_x = (vec_x (p1 r) + vec_x (p2 r)) / 2, vec_y = vec_y (p2 r)\<rparr>"

text \<open>The position at which the owl holds what it carries: \<open>obj_pos\<close> of \<^verbatim>\<open>active_update\<close>.\<close>

definition carry_pos :: "game \<Rightarrow> Vector" where
  "carry_pos g =
     (let obj_pos = get_anchor_pos_ANCHOR_BOTTOM (bbox g);
          obj_pos = obj_pos\<lparr>vec_x := vec_x obj_pos - 16\<rparr>;
          obj_pos = obj_pos\<lparr>vec_y := vec_y obj_pos + 3\<rparr>
      in obj_pos)"

text \<open>The first statement of \<^verbatim>\<open>active_update\<close>: \<^verbatim>\<open>BadGuy::active_update (dt_sec)\<close>.\<close>

definition base_active_update :: "BadGuy_methods \<Rightarrow> real \<Rightarrow> game \<Rightarrow> game" where
  "base_active_update B dt_sec g =
     call_base (Call_BadGuy_active_update dt_sec) (BadGuy_active_update B dt_sec) g"

definition active_update :: "BadGuy_methods \<Rightarrow> real \<Rightarrow> game \<Rightarrow> game" where
  "active_update B dt_sec g0 =
     (let g = base_active_update B dt_sec g0
      in if frozen g then g
         else (case carried g of
                 None \<Rightarrow> g
               | Some obj \<Rightarrow>
                   if \<not> is_above_player g then
                     (let obj_pos = carry_pos g
                      in if vec_x obj_pos \<le> 16 \<or> vec_x obj_pos + 16 \<ge> sector_width g
                         then set_carried_object None (ungrab obj g)
                         else grab obj obj_pos g)
                   else set_carried_object None (ungrab obj g)))"

text \<open>
  The block
  \<^verbatim>\<open>if (carried_object != nullptr) { carried_object->ungrab (*this, m_dir); carried_object = nullptr; }\<close>
  which the source repeats in \<^verbatim>\<open>collision_squished\<close>, \<^verbatim>\<open>kill_fall\<close>,
  \<^verbatim>\<open>freeze\<close> and \<^verbatim>\<open>ignite\<close>.
\<close>

definition release_carried :: "game \<Rightarrow> game" where
  "release_carried g =
     (case carried g of
        None \<Rightarrow> g
      | Some obj \<Rightarrow> set_carried_object None (ungrab obj g))"

definition kill_fall :: "game \<Rightarrow> game" where
  "kill_fall g0 =
     (let g1 = emit (Play_sound ''sounds/fall.wav'' (get_pos g0)) g0;
          g2 = set_velocity_y 0 g1;
          g3 = set_acceleration_y 0 g2;
          g4 = enable_gravity True g3;
          g5 = set_state STATE_FALLING g4;
          g6 = release_carried g5
      in emit Run_dead_script g6)"

definition collision_squished :: "game \<Rightarrow> bool \<times> game" where
  "collision_squished g0 =
     (let g1 = (case sector_nearest_player g0 (bbox g0) of
                  None \<Rightarrow> g0
                | Some player \<Rightarrow> emit Player_bounce g0);
          g2 = release_carried g1;
          g3 = kill_fall g2
      in (True, g3))"

definition freeze :: "BadGuy_methods \<Rightarrow> game \<Rightarrow> game" where
  "freeze B g0 =
     (let g1 = release_carried g0;
          g2 = enable_gravity True g1
      in call_base Call_BadGuy_freeze (BadGuy_freeze B) g2)"

definition unfreeze :: "BadGuy_methods \<Rightarrow> game \<Rightarrow> game" where
  "unfreeze B g0 =
     (let g1 = call_base Call_BadGuy_unfreeze (BadGuy_unfreeze B) g0;
          g2 = set_velocity_x (dir_speed (dir g1)) g1;
          g3 = enable_gravity False g2
      in set_action (dir_action (dir g3)) g3)"

definition is_freezable :: "game \<Rightarrow> bool" where
  "is_freezable g = True"

definition collision_solid :: "BadGuy_methods \<Rightarrow> CollisionHit \<Rightarrow> game \<Rightarrow> game" where
  "collision_solid B hit g =
     (if frozen g
      then call_base (Call_BadGuy_collision_solid hit) (BadGuy_collision_solid B hit) g
      else if top hit \<or> bottom hit then set_velocity_y 0 g
      else if left hit \<or> right hit then
        (if dir g = LEFT
         then set_velocity_x FLYING_SPEED (set_dir RIGHT (set_action ''right'' g))
         else set_velocity_x (- FLYING_SPEED) (set_dir LEFT (set_action ''left'' g)))
      else g)"

definition ignite :: "BadGuy_methods \<Rightarrow> game \<Rightarrow> game" where
  "ignite B g0 =
     (let g1 = release_carried g0
      in call_base Call_BadGuy_ignite (BadGuy_ignite B) g1)"

definition save :: "game \<Rightarrow> game" where
  "save g0 =
     (let g1 = emit Call_BadGuy_save g0
      in emit (Writer_write ''carry'' (carried_obj_name (self g1))) g1)"

subsection \<open>Schedules of calls\<close>

text \<open>
  The engine calls the member functions of an owl one after the other. A schedule lists
  the calls made after \<^verbatim>\<open>initialize\<close>; \<^verbatim>\<open>is_freezable\<close> is \<^verbatim>\<open>const\<close> and
  leaves the state as it is.
\<close>

datatype owl_call =
    Active_update real
  | Collision_squished
  | Kill_fall
  | Freeze
  | Unfreeze
  | Is_freezable
  | Collision_solid CollisionHit
  | Ignite
  | Save

fun perform :: "BadGuy_methods \<Rightarrow> owl_call \<Rightarrow> game \<Rightarrow> game" where
  "perform B (Active_update dt_sec) g = active_update B dt_sec g"
| "perform B Collision_squished g = snd (collision_squished g)"
| "perform B Kill_fall g = kill_fall g"
| "perform B Freeze g = freeze B g"
| "perform B Unfreeze g = unfreeze B g"
| "perform B Is_freezable g = g"
| "perform B (Collision_solid hit) g = collision_solid B hit g"
| "perform B Ignite g = ignite B g"
| "perform B Save g = save g"

fun perform_all :: "BadGuy_methods \<Rightarrow> owl_call list \<Rightarrow> game \<Rightarrow> game" where
  "perform_all B [] g = g"
| "perform_all B (c # cs) g = perform_all B cs (perform B c g)"

subsection \<open>Velocity and direction\<close>




subsection \<open>Example states\<close>

text \<open>
  An owl whose body spans x from 300 to 340 and y from 100 to 140, in a sector 1000 wide.
  The example factory builds a portable object for the name \<open>skydive\<close>, an object that is
  not portable for the name \<open>coin\<close>, and nothing for any other name.
\<close>

definition owl_box :: Rectf where
  "owl_box = \<lparr>p1 = \<lparr>vec_x = 300, vec_y = 100\<rparr>, p2 = \<lparr>vec_x = 340, vec_y = 140\<rparr>\<rparr>"

definition skydive :: GameObject where
  "skydive = \<lparr>ref = 7, portable = True\<rparr>"

definition coin :: GameObject where
  "coin = \<lparr>ref = 9, portable = False\<rparr>"

definition example_factory :: "string \<Rightarrow> Vector \<Rightarrow> Direction \<Rightarrow> GameObject option" where
  "example_factory name pos d =
     (if name = ''skydive'' then Some skydive
      else if name = ''coin'' then Some coin
      else None)"

definition example_game ::
  "string \<Rightarrow> Direction \<Rightarrow> bool \<Rightarrow> obj_ref option \<Rightarrow> Rectf option \<Rightarrow> game" where
  "example_game name d fr c player =
     \<lparr>self = \<lparr>badguy = \<lparr>m_dir = d, m_frozen = fr, m_bbox = owl_box,
                         m_physic = \<lparr>velocity_x = dir_speed d, velocity_y = 5,
                                     acceleration_y = 0, gravity_enabled = fr\<rparr>,
                         m_action = dir_action d, m_state = STATE_ACTIVE\<rparr>,
              carried_obj_name = name, carried_object = c\<rparr>,
      editor_is_active = False,
      factory_create = example_factory,
      sector_objects = [],
      sector_width = 1000,
      sector_nearest_player = (\<lambda>r. player),
      calls = []\<rparr>"

text \<open>A player 32 wide and 64 high with its top left corner at \<open>(l, t)\<close>.\<close>

definition player_box :: "real \<Rightarrow> real \<Rightarrow> Rectf" where
  "player_box l t = \<lparr>p1 = \<lparr>vec_x = l, vec_y = t\<rparr>, p2 = \<lparr>vec_x = l + 32, vec_y = t + 64\<rparr>\<rparr>"

text \<open>An owl configured to carry a coin, before \<^verbatim>\<open>initialize\<close>.\<close>

definition coin_game :: game where
  "coin_game = example_game ''coin'' LEFT False None None"

text \<open>An owl that flies in direction \<open>d\<close> and carries object 7.\<close>

definition carrying_game :: "Direction \<Rightarrow> Rectf option \<Rightarrow> game" where
  "carrying_game d player = example_game ''skydive'' d False (Some 7) player"


text \<open>An owl that flies in direction \<open>d\<close> and carries nothing.\<close>

definition flying_game :: "Direction \<Rightarrow> game" where
  "flying_game d = example_game ''skydive'' d False None None"

definition hit_of :: "bool \<Rightarrow> bool \<Rightarrow> bool \<Rightarrow> bool \<Rightarrow> CollisionHit" where
  "hit_of t b l r = \<lparr>top = t, bottom = b, left = l, right = r\<rparr>"

text \<open>
  Two base classes to run the examples with. The first only keeps the frozen flag; the
  second also stops the body when it hits something solid.
\<close>

definition still_base :: BadGuy_methods where
  "still_base =
     \<lparr>BadGuy_active_update = (\<lambda>dt b. b),
      BadGuy_freeze = (\<lambda>b. b\<lparr>m_frozen := True\<rparr>),
      BadGuy_unfreeze = (\<lambda>b. b\<lparr>m_frozen := False\<rparr>),
      BadGuy_ignite = (\<lambda>b. b),
      BadGuy_collision_solid = (\<lambda>hit b. b)\<rparr>"

definition stopping_base :: BadGuy_methods where
  "stopping_base =
     still_base\<lparr>BadGuy_collision_solid :=
       (\<lambda>hit b. b\<lparr>m_physic := (m_physic b)\<lparr>velocity_x := 0, velocity_y := 0\<rparr>\<rparr>)\<rparr>"

section \<open>Properties\<close>

lemmas access_defs = dir_def frozen_def bbox_def physic_def action_def carried_def get_pos_def

lemmas write_defs = emit_def upd_badguy_def upd_physic_def set_velocity_x_def set_velocity_y_def
  set_acceleration_y_def enable_gravity_def set_action_def set_dir_def set_state_def
  set_carried_object_def add_object_def grab_def ungrab_def call_base_def

lemmas float_defs = float_add_def round32_def round_half_even_def ulp32_def ulp_from_one.simps

lemmas const_defs = FLYING_SPEED_def ACTIVATION_DISTANCE_def dir_speed_def dir_action_def

lemmas example_defs = owl_box_def skydive_def coin_def example_factory_def example_game_def
  player_box_def coin_game_def carrying_game_def flying_game_def hit_of_def
  still_base_def stopping_base_def

subsection \<open>Initialization with an object that is not portable\<close>

text \<open>
  C1, as the code has it. Outside the editor, when the factory builds the configured
  object and the object is not portable, \<^verbatim>\<open>initialize\<close> sets the flight up, logs the
  warning, leaves the carried reference empty and leaves the objects of the sector as they
  were: the object built is not added to the sector.
\<close>

theorem initialize_not_portable:
  assumes "\<not> editor_is_active g"
    and "factory_create g (carried_obj_name (self g)) (get_pos g) (dir g) = Some obj"
    and "\<not> portable obj"
  shows "calls (initialize g) =
           calls g @ [Set_velocity_x (dir_speed (dir g)), Enable_gravity False,
                      Set_action (dir_action (dir g)), Log_warning (carried_obj_name (self g))]
         \<and> carried (initialize g) = None
         \<and> sector_objects (initialize g) = sector_objects g"
  using assms
  by (simp add: initialize_def Let_def access_defs write_defs as_Portable_def)

text \<open>
  C1 as the spec states it fails: the owl configured to carry a coin gets a coin from the
  factory, the coin is not portable, and after \<^verbatim>\<open>initialize\<close> the coin is not among the
  objects of the sector.
\<close>

theorem initialize_not_portable_counterexample:
  "\<not> editor_is_active coin_game
   \<and> factory_create coin_game (carried_obj_name (self coin_game)) (get_pos coin_game)
        (dir coin_game) = Some coin
   \<and> \<not> portable coin
   \<and> coin \<notin> set (sector_objects (initialize coin_game))"
  by (simp add: initialize_def Let_def access_defs write_defs as_Portable_def example_defs)

text \<open>The amended C1 at the owl that is configured to carry a coin.\<close>

theorem initialize_not_portable_witness:
  "calls (initialize coin_game) =
     [Set_velocity_x (- 120), Enable_gravity False, Set_action ''left'', Log_warning ''coin'']
   \<and> carried (initialize coin_game) = None
   \<and> sector_objects (initialize coin_game) = []"
proof -
  have h1: "\<not> editor_is_active coin_game"
    by (simp add: example_defs)
  have h2: "factory_create coin_game (carried_obj_name (self coin_game)) (get_pos coin_game)
      (dir coin_game) = Some coin"
    by (simp add: example_defs)
  have h3: "\<not> portable coin"
    by (simp add: example_defs)
  show ?thesis
    using initialize_not_portable [OF h1 h2 h3]
    by (simp add: access_defs const_defs example_defs)
qed

subsection \<open>Releasing in the handlers\<close>

lemma release_carried_Some:
  "carried g = Some obj \<Longrightarrow> release_carried g = set_carried_object None (ungrab obj g)"
  by (simp add: release_carried_def)

lemma release_carried_None: "carried g = None \<Longrightarrow> release_carried g = g"
  by (simp add: release_carried_def)

text \<open>
  C2, as the code has it. An owl that carries an object calls \<^verbatim>\<open>ungrab\<close> on it exactly
  once in each handler and has an empty reference afterwards. \<^verbatim>\<open>freeze\<close> and
  \<^verbatim>\<open>ignite\<close> release before anything else. \<^verbatim>\<open>collision_squished\<close> first lets the
  nearest player bounce, if there is one, then releases, then runs \<^verbatim>\<open>kill_fall\<close>.
  \<^verbatim>\<open>kill_fall\<close> plays the sound, zeroes vertical velocity and acceleration, enables
  gravity and sets the falling state, and only then releases; the dead script runs last.
\<close>

theorem handlers_release:
  assumes "carried g = Some obj"
  shows "calls (freeze B g) =
           calls g @ [Ungrab obj (dir g), Enable_gravity True, Call_BadGuy_freeze]
     \<and> carried (freeze B g) = None
     \<and> calls (ignite B g) = calls g @ [Ungrab obj (dir g), Call_BadGuy_ignite]
     \<and> carried (ignite B g) = None
     \<and> calls (kill_fall g) =
         calls g @ [Play_sound ''sounds/fall.wav'' (get_pos g), Set_velocity_y 0,
                    Set_acceleration_y 0, Enable_gravity True, Set_state STATE_FALLING,
                    Ungrab obj (dir g), Run_dead_script]
     \<and> carried (kill_fall g) = None
     \<and> calls (snd (collision_squished g)) =
         calls g
           @ (case sector_nearest_player g (bbox g) of
                None \<Rightarrow> []
              | Some player \<Rightarrow> [Player_bounce])
           @ [Ungrab obj (dir g), Play_sound ''sounds/fall.wav'' (get_pos g), Set_velocity_y 0,
              Set_acceleration_y 0, Enable_gravity True, Set_state STATE_FALLING,
              Run_dead_script]
     \<and> carried (snd (collision_squished g)) = None"
proof -
  have fr: "calls (freeze B g) =
      calls g @ [Ungrab obj (dir g), Enable_gravity True, Call_BadGuy_freeze]
      \<and> carried (freeze B g) = None"
    using assms
    by (simp add: freeze_def release_carried_Some Let_def access_defs write_defs)
  have ig: "calls (ignite B g) = calls g @ [Ungrab obj (dir g), Call_BadGuy_ignite]
      \<and> carried (ignite B g) = None"
    using assms
    by (simp add: ignite_def release_carried_Some Let_def access_defs write_defs)
  have kf: "calls (kill_fall g) =
         calls g @ [Play_sound ''sounds/fall.wav'' (get_pos g), Set_velocity_y 0,
                    Set_acceleration_y 0, Enable_gravity True, Set_state STATE_FALLING,
                    Ungrab obj (dir g), Run_dead_script]
      \<and> carried (kill_fall g) = None"
    using assms
    by (simp add: kill_fall_def release_carried_def Let_def access_defs write_defs)
  have sq: "calls (snd (collision_squished g)) =
         calls g
           @ (case sector_nearest_player g (bbox g) of
                None \<Rightarrow> []
              | Some player \<Rightarrow> [Player_bounce])
           @ [Ungrab obj (dir g), Play_sound ''sounds/fall.wav'' (get_pos g), Set_velocity_y 0,
              Set_acceleration_y 0, Enable_gravity True, Set_state STATE_FALLING,
              Run_dead_script]
      \<and> carried (snd (collision_squished g)) = None"
    using assms
    by (simp add: collision_squished_def kill_fall_def release_carried_def Let_def
        access_defs write_defs split: option.splits)
  from fr ig kf sq show ?thesis by simp
qed

text \<open>
  C2 as the spec states it fails for \<^verbatim>\<open>kill_fall\<close> and \<^verbatim>\<open>collision_squished\<close>: an
  owl that flies to the right with object 7, over a player. In \<^verbatim>\<open>kill_fall\<close> the call
  of \<^verbatim>\<open>ungrab\<close> is the sixth call, after the sound, the velocity, the acceleration, the
  gravity and the state; in \<^verbatim>\<open>collision_squished\<close> it comes after the bounce of the
  player.
\<close>

theorem handlers_release_counterexample:
  "carried (carrying_game RIGHT (Some (player_box 300 40))) = Some 7
   \<and> calls (carrying_game RIGHT (Some (player_box 300 40))) = []
   \<and> calls (kill_fall (carrying_game RIGHT (Some (player_box 300 40)))) =
       [Play_sound ''sounds/fall.wav'' \<lparr>vec_x = 300, vec_y = 100\<rparr>, Set_velocity_y 0,
        Set_acceleration_y 0, Enable_gravity True, Set_state STATE_FALLING,
        Ungrab 7 RIGHT, Run_dead_script]
   \<and> calls (snd (collision_squished (carrying_game RIGHT (Some (player_box 300 40))))) =
       [Player_bounce, Ungrab 7 RIGHT,
        Play_sound ''sounds/fall.wav'' \<lparr>vec_x = 300, vec_y = 100\<rparr>, Set_velocity_y 0,
        Set_acceleration_y 0, Enable_gravity True, Set_state STATE_FALLING, Run_dead_script]"
  by (simp add: kill_fall_def collision_squished_def release_carried_def
      Let_def access_defs write_defs example_defs)

text \<open>The amended C2 at an owl that flies to the left with object 7 and is frozen or set alight.\<close>

theorem handlers_release_witness:
  "calls (freeze still_base (carrying_game LEFT None)) =
     [Ungrab 7 LEFT, Enable_gravity True, Call_BadGuy_freeze]
   \<and> carried (freeze still_base (carrying_game LEFT None)) = None
   \<and> calls (ignite still_base (carrying_game LEFT None)) = [Ungrab 7 LEFT, Call_BadGuy_ignite]
   \<and> carried (kill_fall (carrying_game LEFT None)) = None
   \<and> carried (snd (collision_squished (carrying_game LEFT None))) = None"
proof -
  have h: "carried (carrying_game LEFT None) = Some 7"
    by (simp add: access_defs example_defs)
  show ?thesis
    using handlers_release [OF h, of still_base]
    by (simp add: access_defs example_defs)
qed

subsection \<open>Dropping on the player\<close>

text \<open>
  C3. Take the state \<open>g\<close> of a tick after the inherited update, with the owl not frozen
  and carrying \<open>obj\<close>. Then \<^verbatim>\<open>is_above_player\<close> holds exactly when the sector finds a
  nearest player, the top of the player is at or below the bottom of the owl, and the
  horizontal extent of the player overlaps the horizontal extent of the owl once the
  offset of 128 is applied for the direction in which the owl flies: the source adds 128 to
  both ends of the player's extent when the owl flies to the left and -128 otherwise, in
  binary32. The player's extent is thus moved by 128 against the flight of the owl, which
  is the owl looking 128 ahead: it lets go while the player is still in front of it. When
  the predicate holds, the tick calls \<^verbatim>\<open>ungrab\<close> on the carried object and nothing
  else, and the reference is empty afterwards.
\<close>

theorem drop_on_player:
  assumes "g = base_active_update B dt g0" and "\<not> frozen g" and "carried g = Some obj"
  shows "(is_above_player g \<longleftrightarrow>
            (\<exists>player_bbox. sector_nearest_player g (bbox g) = Some player_bbox
               \<and> vec_y (p2 (bbox g)) \<le> vec_y (p1 player_bbox)
               \<and> vec_x (p1 (bbox g))
                   < float_add (vec_x (p2 player_bbox)) (if dir g = LEFT then 128 else - 128)
               \<and> float_add (vec_x (p1 player_bbox)) (if dir g = LEFT then 128 else - 128)
                   < vec_x (p2 (bbox g))))
     \<and> (is_above_player g \<longrightarrow>
            calls (active_update B dt g0) = calls g @ [Ungrab obj (dir g)]
          \<and> carried (active_update B dt g0) = None)"
proof -
  have pred: "is_above_player g \<longleftrightarrow>
            (\<exists>player_bbox. sector_nearest_player g (bbox g) = Some player_bbox
               \<and> vec_y (p2 (bbox g)) \<le> vec_y (p1 player_bbox)
               \<and> vec_x (p1 (bbox g))
                   < float_add (vec_x (p2 player_bbox)) (if dir g = LEFT then 128 else - 128)
               \<and> float_add (vec_x (p1 player_bbox)) (if dir g = LEFT then 128 else - 128)
                   < vec_x (p2 (bbox g)))"
    by (cases "sector_nearest_player g (bbox g)")
       (auto simp: is_above_player_def Let_def ACTIVATION_DISTANCE_def)
  have act: "is_above_player g \<Longrightarrow> active_update B dt g0 = set_carried_object None (ungrab obj g)"
    using assms by (simp add: active_update_def Let_def)
  show ?thesis using pred act
    by (simp add: access_defs write_defs)
qed

text \<open>
  C3 at an owl that flies to the left with object 7, its body from 300 to 340, and a player
  from 200 to 232 below it: the player is still ahead of the owl, and within 128 of it, so
  the owl lets go. The sums 232 + 128 and 200 + 128 are exact in binary32.
\<close>

theorem drop_on_player_witness:
  "\<not> frozen (base_active_update still_base (1 / 60) (carrying_game LEFT (Some (player_box 200 200))))
   \<and> carried (base_active_update still_base (1 / 60)
        (carrying_game LEFT (Some (player_box 200 200)))) = Some 7
   \<and> is_above_player (base_active_update still_base (1 / 60)
        (carrying_game LEFT (Some (player_box 200 200))))
   \<and> calls (active_update still_base (1 / 60) (carrying_game LEFT (Some (player_box 200 200)))) =
       [Call_BadGuy_active_update (1 / 60), Ungrab 7 LEFT]
   \<and> carried (active_update still_base (1 / 60)
        (carrying_game LEFT (Some (player_box 200 200)))) = None"
proof -
  have h1: "\<not> frozen (base_active_update still_base (1 / 60)
      (carrying_game LEFT (Some (player_box 200 200))))"
    by (simp add: base_active_update_def access_defs write_defs example_defs)
  have h2: "carried (base_active_update still_base (1 / 60)
      (carrying_game LEFT (Some (player_box 200 200)))) = Some 7"
    by (simp add: base_active_update_def access_defs write_defs example_defs)
  have s1: "float_add 232 128 = 360" and s2: "float_add 200 128 = 328"
    by (simp_all add: float_defs Let_def)
  have h3: "is_above_player (base_active_update still_base (1 / 60)
      (carrying_game LEFT (Some (player_box 200 200))))"
    by (simp add: is_above_player_def base_active_update_def Let_def access_defs write_defs
        const_defs example_defs s1 s2)
  show ?thesis
    using h1 h2 h3 drop_on_player [OF refl h1 h2]
    by (simp add: base_active_update_def access_defs write_defs example_defs)
qed

text \<open>
  Where a sum is not exact, the rounded sum decides. A player whose right end is at
  172 + 2 ^ (- 16) is moved to 300 + 2 ^ (- 16), which is half way between two binary32
  numbers and rounds to 300, the left end of the owl: the extents do not overlap, and the
  owl keeps its object.
\<close>

lemma is_above_player_rounded:
  "float_add (172 + 1 / 2 ^ 16) 128 = 300
   \<and> \<not> is_above_player (base_active_update still_base (1 / 60)
        (carrying_game LEFT (Some (player_box (140 + 1 / 2 ^ 16) 200))))
   \<and> calls (active_update still_base (1 / 60)
        (carrying_game LEFT (Some (player_box (140 + 1 / 2 ^ 16) 200)))) =
       [Call_BadGuy_active_update (1 / 60), Grab 7 \<lparr>vec_x = 304, vec_y = 143\<rparr> LEFT]"
proof -
  have s1: "float_add (172 + 1 / 2 ^ 16) 128 = 300"
    and s2: "float_add (140 + 1 / 2 ^ 16) 128 = 268"
    by (simp_all add: float_defs Let_def)
  have e: "(140 + 1 / 2 ^ 16 + 32 :: real) = 172 + 1 / 2 ^ 16"
    by simp
  have n: "\<not> is_above_player (base_active_update still_base (1 / 60)
      (carrying_game LEFT (Some (player_box (140 + 1 / 2 ^ 16) 200))))"
    unfolding is_above_player_def base_active_update_def Let_def access_defs write_defs
      const_defs example_defs
    by (simp add: e s1 s2 del: power_numeral)
  have a: "calls (active_update still_base (1 / 60)
        (carrying_game LEFT (Some (player_box (140 + 1 / 2 ^ 16) 200)))) =
       [Call_BadGuy_active_update (1 / 60), Grab 7 \<lparr>vec_x = 304, vec_y = 143\<rparr> LEFT]"
    using n
    by (simp add: active_update_def Let_def)
       (simp add: carry_pos_def get_anchor_pos_ANCHOR_BOTTOM_def base_active_update_def Let_def
          access_defs write_defs example_defs)
  from s1 n a show ?thesis by simp
qed

subsection \<open>Carrying, and releasing at the edge of the level\<close>



subsection \<open>A released object is not taken up again\<close>

lemma perform_keeps_empty:
  assumes "carried g = None"
  shows "carried (perform B c g) = None
       \<and> filter is_Grab (calls (perform B c g)) = filter is_Grab (calls g)"
proof (cases c)
  case (Active_update dt)
  then show ?thesis using assms
    by (simp add: active_update_def base_active_update_def Let_def access_defs write_defs)
next
  case Collision_squished
  then show ?thesis using assms
    by (simp add: collision_squished_def kill_fall_def release_carried_def Let_def
        access_defs write_defs split: option.splits)
next
  case Kill_fall
  then show ?thesis using assms
    by (simp add: kill_fall_def release_carried_def Let_def access_defs write_defs)
next
  case Freeze
  then show ?thesis using assms
    by (simp add: freeze_def release_carried_def Let_def access_defs write_defs)
next
  case Unfreeze
  then show ?thesis using assms
    by (simp add: unfreeze_def Let_def access_defs write_defs)
next
  case Is_freezable
  then show ?thesis using assms by simp
next
  case (Collision_solid hit)
  then show ?thesis using assms
    by (simp add: collision_solid_def Let_def access_defs write_defs)
next
  case Ignite
  then show ?thesis using assms
    by (simp add: ignite_def release_carried_def Let_def access_defs write_defs)
next
  case Save
  then show ?thesis using assms
    by (simp add: save_def Let_def access_defs write_defs)
qed

text \<open>
  C5. Once the carried reference of an owl is empty, it is empty after every schedule of
  calls of the member functions other than \<^verbatim>\<open>initialize\<close>, whatever the base class
  does, and the schedule adds no call of \<^verbatim>\<open>grab\<close>.
\<close>

theorem released_stays_released:
  assumes "carried g = None"
  shows "carried (perform_all B cs g) = None
       \<and> filter is_Grab (calls (perform_all B cs g)) = filter is_Grab (calls g)"
  using assms
proof (induction cs arbitrary: g)
  case Nil
  then show ?case by simp
next
  case (Cons c cs)
  from perform_keeps_empty [OF Cons.prems, of B c]
  have step: "carried (perform B c g) = None"
    and grabs: "filter is_Grab (calls (perform B c g)) = filter is_Grab (calls g)"
    by simp_all
  from Cons.IH [OF step] grabs show ?case by simp
qed

text \<open>
  C5 at the owl that has just dropped object 7 on the player: it is then hit on its left,
  ticks, is frozen, thawed and ticks again, and neither holds nor grabs anything.
\<close>

theorem released_stays_released_witness:
  "carried (active_update still_base (1 / 60)
      (carrying_game LEFT (Some (player_box 200 200)))) = None
   \<and> carried (perform_all still_base
        [Collision_solid (hit_of False False True False), Active_update (1 / 60), Freeze,
         Unfreeze, Active_update (1 / 60)]
        (active_update still_base (1 / 60)
           (carrying_game LEFT (Some (player_box 200 200))))) = None
   \<and> filter is_Grab (calls (perform_all still_base
        [Collision_solid (hit_of False False True False), Active_update (1 / 60), Freeze,
         Unfreeze, Active_update (1 / 60)]
        (active_update still_base (1 / 60)
           (carrying_game LEFT (Some (player_box 200 200)))))) = []"
proof -
  have s1: "float_add 232 128 = 360" and s2: "float_add 200 128 = 328"
    by (simp_all add: float_defs Let_def)
  have st: "active_update still_base (1 / 60) (carrying_game LEFT (Some (player_box 200 200))) =
      set_carried_object None (ungrab 7 (base_active_update still_base (1 / 60)
        (carrying_game LEFT (Some (player_box 200 200)))))"
    by (simp add: active_update_def is_above_player_def base_active_update_def Let_def
        access_defs write_defs const_defs example_defs s1 s2)
  have h: "carried (active_update still_base (1 / 60)
      (carrying_game LEFT (Some (player_box 200 200)))) = None"
    unfolding st by (simp add: access_defs write_defs)
  have c: "filter is_Grab (calls (active_update still_base (1 / 60)
      (carrying_game LEFT (Some (player_box 200 200))))) = []"
    unfolding st by (simp add: base_active_update_def access_defs write_defs example_defs)
  show ?thesis
    using h c released_stays_released [OF h, of still_base
        "[Collision_solid (hit_of False False True False), Active_update (1 / 60), Freeze,
          Unfreeze, Active_update (1 / 60)]"]
    by simp
qed

subsection \<open>Collisions with solid ground\<close>

text \<open>
  C6, as the code has it. When the owl is not frozen and the hit is on the left or on the
  right and neither on the top nor on the bottom, the direction is reversed, the action is
  the one of the new direction, and the horizontal velocity is 120 with the sign of the new
  direction; an owl that faces right and is hit on its right then faces left with
  horizontal velocity -120.
\<close>

theorem lateral_collision_reverses:
  assumes "\<not> frozen g" and "\<not> top hit" and "\<not> bottom hit" and "left hit \<or> right hit"
  shows "dir (collision_solid B hit g) = (if dir g = LEFT then RIGHT else LEFT)
     \<and> action (collision_solid B hit g) = (if dir g = LEFT then ''right'' else ''left'')
     \<and> velocity_x (physic (collision_solid B hit g)) = (if dir g = LEFT then 120 else - 120)
     \<and> (dir g = RIGHT \<and> right hit \<longrightarrow>
          dir (collision_solid B hit g) = LEFT
        \<and> velocity_x (physic (collision_solid B hit g)) = - 120)"
  using assms
  by (cases "dir g") (auto simp: collision_solid_def FLYING_SPEED_def access_defs write_defs)

text \<open>
  C6 as the spec states it fails for a hit that is also on the top: an owl that is not
  frozen and faces right with horizontal velocity 120 is hit on its right and on its top,
  and still faces right with horizontal velocity 120.
\<close>

theorem lateral_collision_reverses_counterexample:
  "\<not> frozen (flying_game RIGHT)
   \<and> right (hit_of True False False True)
   \<and> dir (flying_game RIGHT) = RIGHT
   \<and> velocity_x (physic (flying_game RIGHT)) = 120
   \<and> dir (collision_solid still_base (hit_of True False False True) (flying_game RIGHT)) = RIGHT
   \<and> velocity_x (physic (collision_solid still_base (hit_of True False False True)
        (flying_game RIGHT))) = 120"
  by (simp add: collision_solid_def access_defs write_defs example_defs const_defs)

text \<open>The amended C6 at an owl that faces right and is hit on its right only.\<close>

theorem lateral_collision_reverses_witness:
  "dir (collision_solid still_base (hit_of False False False True) (flying_game RIGHT)) = LEFT
   \<and> action (collision_solid still_base (hit_of False False False True) (flying_game RIGHT))
       = ''left''
   \<and> velocity_x (physic (collision_solid still_base (hit_of False False False True)
        (flying_game RIGHT))) = - 120"
proof -
  have h1: "\<not> frozen (flying_game RIGHT)"
    by (simp add: access_defs example_defs)
  have h2: "\<not> top (hit_of False False False True)"
    and h3: "\<not> bottom (hit_of False False False True)"
    and h4: "left (hit_of False False False True) \<or> right (hit_of False False False True)"
    by (simp_all add: hit_of_def)
  have d: "dir (flying_game RIGHT) = RIGHT"
    by (simp add: access_defs example_defs)
  show ?thesis
    using lateral_collision_reverses [OF h1 h2 h3 h4, of still_base]
    by (simp add: d)
qed

text \<open>
  C7. When the owl is not frozen, a hit on the top or on the bottom only sets the vertical
  velocity to zero: the direction, the horizontal velocity and the carried reference stay
  as they were.
\<close>

theorem vertical_collision:
  assumes "\<not> frozen g" and "top hit \<or> bottom hit"
  shows "collision_solid B hit g = set_velocity_y 0 g
     \<and> velocity_y (physic (collision_solid B hit g)) = 0
     \<and> dir (collision_solid B hit g) = dir g
     \<and> velocity_x (physic (collision_solid B hit g)) = velocity_x (physic g)
     \<and> carried (collision_solid B hit g) = carried g"
  using assms
  by (auto simp: collision_solid_def access_defs write_defs)

text \<open>C7 at an owl that flies to the right with vertical velocity 5 and is hit on its bottom.\<close>

theorem vertical_collision_witness:
  "velocity_y (physic (flying_game RIGHT)) = 5
   \<and> velocity_y (physic (collision_solid still_base (hit_of False True False False)
        (flying_game RIGHT))) = 0
   \<and> dir (collision_solid still_base (hit_of False True False False) (flying_game RIGHT)) = RIGHT
   \<and> velocity_x (physic (collision_solid still_base (hit_of False True False False)
        (flying_game RIGHT))) = 120
   \<and> carried (collision_solid still_base (hit_of False True False False) (flying_game RIGHT))
       = None"
proof -
  have h: "top (hit_of False True False False) \<or> bottom (hit_of False True False False)"
    by (simp add: hit_of_def)
  have nf: "\<not> frozen (flying_game RIGHT)"
    by (simp add: access_defs example_defs)
  have before: "velocity_y (physic (flying_game RIGHT)) = 5 \<and> dir (flying_game RIGHT) = RIGHT
      \<and> velocity_x (physic (flying_game RIGHT)) = 120 \<and> carried (flying_game RIGHT) = None"
    by (simp add: access_defs example_defs const_defs)
  have after: "velocity_y (physic (collision_solid still_base (hit_of False True False False)
          (flying_game RIGHT))) = 0
      \<and> dir (collision_solid still_base (hit_of False True False False) (flying_game RIGHT))
          = dir (flying_game RIGHT)
      \<and> velocity_x (physic (collision_solid still_base (hit_of False True False False)
          (flying_game RIGHT))) = velocity_x (physic (flying_game RIGHT))
      \<and> carried (collision_solid still_base (hit_of False True False False) (flying_game RIGHT))
          = carried (flying_game RIGHT)"
    using vertical_collision [OF nf h, of still_base] by blast
  from before after show ?thesis by simp
qed

text \<open>
  C10. When the owl is not frozen and one hit reports the top or the bottom together with
  the left or the right, only the vertical answer is given: the vertical velocity is set to
  zero, and the direction, the action and the horizontal velocity stay as they were.
\<close>

theorem vertical_wins_over_lateral:
  assumes "\<not> frozen g" and "top hit \<or> bottom hit" and "left hit \<or> right hit"
  shows "collision_solid B hit g = set_velocity_y 0 g
     \<and> velocity_y (physic (collision_solid B hit g)) = 0
     \<and> dir (collision_solid B hit g) = dir g
     \<and> action (collision_solid B hit g) = action g
     \<and> velocity_x (physic (collision_solid B hit g)) = velocity_x (physic g)"
  using assms
  by (auto simp: collision_solid_def access_defs write_defs)

text \<open>C10 at an owl that flies to the left and is hit on its bottom and on its left.\<close>

theorem vertical_wins_over_lateral_witness:
  "velocity_y (physic (collision_solid still_base (hit_of False True True False)
      (flying_game LEFT))) = 0
   \<and> dir (collision_solid still_base (hit_of False True True False) (flying_game LEFT)) = LEFT
   \<and> action (collision_solid still_base (hit_of False True True False) (flying_game LEFT))
       = ''left''
   \<and> velocity_x (physic (collision_solid still_base (hit_of False True True False)
        (flying_game LEFT))) = - 120"
proof -
  have h1: "\<not> frozen (flying_game LEFT)"
    by (simp add: access_defs example_defs)
  have h2: "top (hit_of False True True False) \<or> bottom (hit_of False True True False)"
    and h3: "left (hit_of False True True False) \<or> right (hit_of False True True False)"
    by (simp_all add: hit_of_def)
  have before: "dir (flying_game LEFT) = LEFT \<and> action (flying_game LEFT) = ''left''
      \<and> velocity_x (physic (flying_game LEFT)) = - 120"
    by (simp add: access_defs example_defs const_defs)
  show ?thesis
    using before vertical_wins_over_lateral [OF h1 h2 h3, of still_base]
    by (simp add: access_defs write_defs)
qed

subsection \<open>The sign of the horizontal velocity\<close>




















subsection \<open>A tick without a player\<close>



end
